theory Spec2Isabelle
  imports Main
begin

section \<open>Values of the JavaScript runtime\<close>

text \<open>
  The loader of \<^verbatim>\<open>src/index.ts\<close> runs on Node.js. Everything it raises is a value of
  \<open>js_error\<close>: a file-system error with its \<^verbatim>\<open>code\<close>, the \<^verbatim>\<open>SyntaxError\<close> of
  \<^verbatim>\<open>JSON.parse\<close>, a \<^verbatim>\<open>TypeError\<close>, the rejection of esbuild's \<^verbatim>\<open>build\<close> with its
  messages, and the \<^verbatim>\<open>Error\<close> the loader throws itself, with its message.
\<close>

datatype js_error =
    IOError string
  | SyntaxError
  | TypeError
  | BuildFailure "string list"
  | Error string

text \<open>
  What \<^verbatim>\<open>JSON.parse\<close> returns and \<^verbatim>\<open>JSON.stringify\<close> prints. The numbers modelled are
  the integers that JavaScript holds exactly and prints in plain decimal, those of
  magnitude at most \<open>2\<^sup>5\<^sup>3 - 1\<close> (the schema version of the loader is \<open>4\<close>, paths and
  hashes are strings). An object is the list of its properties in enumeration order:
  the array indices first, ascending, then the other names in the order they were
  created. \<open>js_value\<close> below says which terms stand for a value in this way.
\<close>

datatype json =
    JNull
  | JBool bool
  | JNum int
  | JStr string
  | JArr "json list"
  | JObj "(string \<times> json) list"

text \<open>
  What a module can export. A promise is given by how it settles, a function by the
  outcome of calling it without arguments (it throws, or returns a value, which may be a
  promise): this is all \<^verbatim>\<open>loadConfig\<close> does with either. The type of the export is
  \<^verbatim>\<open>DefineConfig<Config>\<close> with \<^verbatim>\<open>Config extends Record<string, unknown>\<close>, an object or a
  function returning the promise of one; the other values are what a module written in
  JavaScript can export all the same.
\<close>

datatype jsval =
    VUndefined
  | VNull
  | VBool bool
  | VNum int
  | VStr string
  | VArray "jsval list"
  | VObject "(string \<times> jsval) list"
  | VPromise "js_error + jsval"
  | VFunction "js_error + jsval"

text \<open>JavaScript's \<^verbatim>\<open>!v\<close> is \<open>\<not> truthy v\<close>; objects, promises and functions are truthy.\<close>

fun truthy :: "jsval \<Rightarrow> bool" where
  "truthy VUndefined = False"
| "truthy VNull = False"
| "truthy (VBool b) = b"
| "truthy (VNum n) = (n \<noteq> 0)"
| "truthy (VStr s) = (s \<noteq> [])"
| "truthy (VArray xs) = True"
| "truthy (VObject ps) = True"
| "truthy (VPromise r) = True"
| "truthy (VFunction r) = True"

fun truthy_json :: "json \<Rightarrow> bool" where
  "truthy_json JNull = False"
| "truthy_json (JBool b) = b"
| "truthy_json (JNum n) = (n \<noteq> 0)"
| "truthy_json (JStr s) = (s \<noteq> [])"
| "truthy_json (JArr xs) = True"
| "truthy_json (JObj ps) = True"

text \<open>\<^verbatim>\<open>typeof v === "function"\<close>\<close>

fun is_function :: "jsval \<Rightarrow> bool" where
  "is_function (VFunction r) = True"
| "is_function v = False"

fun is_promise :: "jsval \<Rightarrow> bool" where
  "is_promise (VPromise r) = True"
| "is_promise v = False"

text \<open>
  \<^verbatim>\<open>await v\<close>: a value that is not a promise is the result; a rejected promise raises; a
  promise resolved with a promise is awaited in turn.
\<close>

fun await :: "jsval \<Rightarrow> js_error + jsval" where
  "await (VPromise (Inl e)) = Inl e"
| "await (VPromise (Inr v)) = await v"
| "await v = Inr v"

text \<open>\<^verbatim>\<open>f()\<close>: calling what is not a function is a \<^verbatim>\<open>TypeError\<close>.\<close>

fun call :: "jsval \<Rightarrow> js_error + jsval" where
  "call (VFunction r) = r"
| "call v = Inl TypeError"

section \<open>The file system\<close>

text \<open>
  A path is \<open>Missing\<close> (its directory exists, the file does not), \<open>NoDir\<close> (its
  directory does not exist either), a \<open>File\<close> with its bytes, or at \<open>Fault\<close>: a
  directory, or a file the process may not open, where reading and writing raise an
  error with the given code (\<^verbatim>\<open>EISDIR\<close>, \<^verbatim>\<open>EACCES\<close>, ...).
\<close>

datatype node = Missing | NoDir | File string | Fault string

type_synonym filesystem = "string \<Rightarrow> node"

definition existsSync :: "filesystem \<Rightarrow> string \<Rightarrow> bool" where
  "existsSync fs path = (case fs path of Missing \<Rightarrow> False | NoDir \<Rightarrow> False | _ \<Rightarrow> True)"

text \<open>\<^verbatim>\<open>readFileSync(path)\<close>: the bytes, as a \<^verbatim>\<open>Buffer\<close>.\<close>

definition readFileSync :: "filesystem \<Rightarrow> string \<Rightarrow> js_error + string" where
  "readFileSync fs path =
     (case fs path of
        Missing \<Rightarrow> Inl (IOError ''ENOENT'')
      | NoDir \<Rightarrow> Inl (IOError ''ENOENT'')
      | File bytes \<Rightarrow> Inr bytes
      | Fault code \<Rightarrow> Inl (IOError code))"

text \<open>\<^verbatim>\<open>writeFileSync(path, bytes)\<close> replaces the whole content, or raises.\<close>

definition writeFileSync :: "string \<Rightarrow> string \<Rightarrow> filesystem \<Rightarrow> js_error + filesystem" where
  "writeFileSync path bytes fs =
     (case fs path of
        NoDir \<Rightarrow> Inl (IOError ''ENOENT'')
      | Fault code \<Rightarrow> Inl (IOError code)
      | _ \<Rightarrow> Inr (fs(path := File bytes)))"

text \<open>\<^verbatim>\<open>err.code\<close>\<close>

fun err_code :: "js_error \<Rightarrow> string option" where
  "err_code (IOError code) = Some code"
| "err_code e = None"

section \<open>What the loader takes from its environment\<close>

text \<open>
  esbuild's \<^verbatim>\<open>build\<close> returns its messages and the keys of \<^verbatim>\<open>metafile.inputs\<close>, in
  the order \<^verbatim>\<open>Object.keys\<close> gives them.
\<close>

record build_result =
  errors :: "string list"
  warnings :: "string list"
  inputs :: "string list"

datatype msg_kind = KindError | KindWarning

text \<open>
  The capabilities that are not code of this repository are parameters of the model:
  the SHA-1 digest in hexadecimal, UTF-8 decoding and encoding, \<^verbatim>\<open>JSON.parse\<close> (\<open>None\<close>
  where it throws), \<^verbatim>\<open>path.join\<close>, \<^verbatim>\<open>process.cwd()\<close>, esbuild's \<^verbatim>\<open>build\<close> for an
  entry point and an output file (it rejects, leaving the files as they were, or
  returns its result and the file system with the bundle written),
  \<^verbatim>\<open>formatMessagesSync\<close>, the dynamic \<^verbatim>\<open>import\<close> of a path with its \<^verbatim>\<open>?t=\<close> token (the
  exports of the module, by name), and the presence of \<^verbatim>\<open>NO_COLOR\<close> in the process
  environment and the process arguments.
\<close>

record runtime =
  sha1_hex :: "string \<Rightarrow> string"
  utf8_decode :: "string \<Rightarrow> string"
  utf8_encode :: "string \<Rightarrow> string"
  JSON_parse :: "string \<Rightarrow> json option"
  path_join :: "string \<Rightarrow> string \<Rightarrow> string"
  cwd :: string
  esbuild :: "string \<Rightarrow> string \<Rightarrow> filesystem \<Rightarrow> js_error + (build_result \<times> filesystem)"
  formatMessagesSync :: "string list \<Rightarrow> msg_kind \<Rightarrow> bool \<Rightarrow> string list"
  dyn_import :: "string \<Rightarrow> nat \<Rightarrow> filesystem \<Rightarrow> js_error + (string \<times> jsval) list"
  env_NO_COLOR :: bool
  argv :: "string list"

text \<open>
  What a call leaves behind: the file system, the calls it made to the build and the
  import capabilities and the lines it printed, in order, and the clock that
  \<^verbatim>\<open>Date.now()\<close> reads.
\<close>

datatype effect = Build string string | ConsoleLog string | Import string nat

record world =
  disk :: filesystem
  trace :: "effect list"
  clock :: nat

section \<open>\<^verbatim>\<open>JSON.stringify\<close>\<close>

definition hex_digit :: "nat \<Rightarrow> char" where
  "hex_digit n = ''0123456789abcdef'' ! (n mod 16)"

fun decimal :: "nat \<Rightarrow> string" where
  "decimal n =
     (if n < 10 then [hex_digit n] else decimal (n div 10) @ [hex_digit (n mod 10)])"

declare decimal.simps [simp del]

text \<open>
  A number in a JSON text: the decimal numeral, as JavaScript prints an integer of
  magnitude at most \<open>2\<^sup>5\<^sup>3 - 1\<close>.
\<close>

definition show_int :: "int \<Rightarrow> string" where
  "show_int i = (if i < 0 then CHR ''-'' # decimal (nat (- i)) else decimal (nat i))"

text \<open>The escapes of \<^verbatim>\<open>JSON.stringify\<close> inside a string literal.\<close>

definition escape_char :: "char \<Rightarrow> string" where
  "escape_char c =
     (if c = CHR 0x22 then [CHR 0x5C, CHR 0x22]
      else if c = CHR 0x5C then [CHR 0x5C, CHR 0x5C]
      else if c = CHR 0x08 then [CHR 0x5C, CHR ''b'']
      else if c = CHR 0x0C then [CHR 0x5C, CHR ''f'']
      else if c = CHR 0x0A then [CHR 0x5C, CHR ''n'']
      else if c = CHR 0x0D then [CHR 0x5C, CHR ''r'']
      else if c = CHR 0x09 then [CHR 0x5C, CHR ''t'']
      else if (of_char c :: nat) < 32
        then [CHR 0x5C, CHR ''u'', CHR ''0'', CHR ''0'',
              hex_digit (of_char c div 16), hex_digit (of_char c)]
      else [c])"

definition quote :: "string \<Rightarrow> string" where
  "quote s = CHR 0x22 # concat (map escape_char s) @ [CHR 0x22]"

fun join :: "string \<Rightarrow> string list \<Rightarrow> string" where
  "join sep [] = []"
| "join sep [x] = x"
| "join sep (x # y # ys) = x @ sep @ join sep (y # ys)"

text \<open>
  \<^verbatim>\<open>JSON.stringify(value, null, gap)\<close> at nesting depth \<open>d\<close>. With \<open>gap = 0\<close> nothing
  separates the tokens; with a positive \<open>gap\<close> every element and property of a non-empty
  array or object is on a line of its own, indented by \<open>gap\<close> spaces per level, and a
  space follows the colon.
\<close>

definition indent :: "nat \<Rightarrow> nat \<Rightarrow> string" where
  "indent gap d = (if gap = 0 then [] else CHR 0x0A # replicate (gap * d) CHR '' '')"

definition bracket :: "nat \<Rightarrow> nat \<Rightarrow> char \<Rightarrow> char \<Rightarrow> string list \<Rightarrow> string" where
  "bracket gap d l r items =
     (if items = [] then [l, r]
      else [l] @ indent gap (Suc d) @ join (CHR '','' # indent gap (Suc d)) items
           @ indent gap d @ [r])"

fun stringify :: "nat \<Rightarrow> nat \<Rightarrow> json \<Rightarrow> string" where
  "stringify gap d JNull = ''null''"
| "stringify gap d (JBool b) = (if b then ''true'' else ''false'')"
| "stringify gap d (JNum i) = show_int i"
| "stringify gap d (JStr s) = quote s"
| "stringify gap d (JArr xs) =
     bracket gap d CHR ''['' CHR '']'' (map (stringify gap (Suc d)) xs)"
| "stringify gap d (JObj ps) =
     bracket gap d CHR ''{'' CHR ''}''
       (map (\<lambda>p. quote (fst p) @ (if gap = 0 then '':'' else '': '')
                   @ stringify gap (Suc d) (snd p)) ps)"

text \<open>\<^verbatim>\<open>JSON.stringify(value)\<close>, as line 84 calls it.\<close>

definition JSON_stringify :: "json \<Rightarrow> string" where
  "JSON_stringify v = stringify 0 0 v"


section \<open>The helpers of \<^verbatim>\<open>src/index.ts\<close>\<close>

text \<open>
  Lines 114-121. \<^verbatim>\<open>readFileSync(path, "utf-8")\<close> in a \<^verbatim>\<open>try\<close>: the decoded text; nothing
  (\<^verbatim>\<open>undefined\<close>) when the error code is \<^verbatim>\<open>ENOENT\<close>; any other error is thrown again.
\<close>

definition readMaybeFileSync ::
  "runtime \<Rightarrow> filesystem \<Rightarrow> string \<Rightarrow> js_error + string option" where
  "readMaybeFileSync rt fs path =
     (case readFileSync fs path of
        Inr bytes \<Rightarrow> Inr (Some (utf8_decode rt bytes))
      | Inl err \<Rightarrow> if err_code err = Some ''ENOENT'' then Inr None else Inl err)"

text \<open>
  Lines 109-112. The argument is a string, hashed through its UTF-8 encoding, or a
  \<^verbatim>\<open>Buffer\<close>, hashed as it is.
\<close>

datatype content = Text string | Buffer string

fun getHash :: "runtime \<Rightarrow> content \<Rightarrow> string" where
  "getHash rt (Text s) = sha1_hex rt (utf8_encode rt s)"
| "getHash rt (Buffer b) = sha1_hex rt b"

text \<open>Lines 87-89.\<close>

definition useColors :: "runtime \<Rightarrow> bool" where
  "useColors rt = (\<not> (env_NO_COLOR rt \<or> ''--no-color'' \<in> set (argv rt)))"

text \<open>Lines 91-107: the errors if there are any, else the warnings if there are any.\<close>

definition logEsbuildErrors :: "runtime \<Rightarrow> build_result \<Rightarrow> effect list \<Rightarrow> effect list" where
  "logEsbuildErrors rt res tr =
     (if errors res \<noteq> []
        then tr @ [ConsoleLog (join [CHR 0x0A]
                     (formatMessagesSync rt (errors res) KindError (useColors rt)))]
      else if warnings res \<noteq> []
        then tr @ [ConsoleLog (join [CHR 0x0A]
                     (formatMessagesSync rt (warnings res) KindWarning (useColors rt)))]
      else tr)"

section \<open>\<^verbatim>\<open>jsonCache\<close>, lines 71-85\<close>

text \<open>
  \<^verbatim>\<open>json.version\<close> and \<^verbatim>\<open>json.files\<close>: reading a property of \<^verbatim>\<open>null\<close> is a
  \<^verbatim>\<open>TypeError\<close>; a boolean, a number, a string and an array have no property of
  either name.
\<close>

fun get_prop :: "json \<Rightarrow> string \<Rightarrow> js_error + json option" where
  "get_prop JNull k = Inl TypeError"
| "get_prop (JObj ps) k = Inr (map_of ps k)"
| "get_prop v k = Inr None"

text \<open>\<^verbatim>\<open>delete json.version\<close>\<close>

fun delete_prop :: "json \<Rightarrow> string \<Rightarrow> json" where
  "delete_prop (JObj ps) k = JObj (filter (\<lambda>p. fst p \<noteq> k) ps)"
| "delete_prop v k = v"

text \<open>
  \<^verbatim>\<open>read\<close>, lines 75-83. The version is a number or a string, here a \<open>json\<close> value
  \<open>JNum\<close> or \<open>JStr\<close>. \<^verbatim>\<open>!content\<close> holds of a file that is missing and of one that is
  empty.
\<close>

definition jsonCache_read ::
  "runtime \<Rightarrow> string \<Rightarrow> json \<Rightarrow> filesystem \<Rightarrow> js_error + json option" where
  "jsonCache_read rt path version fs =
     (case readMaybeFileSync rt fs path of
        Inl err \<Rightarrow> Inl err
      | Inr None \<Rightarrow> Inr None
      | Inr (Some content) \<Rightarrow>
          if content = [] then Inr None
          else (case JSON_parse rt content of
                  None \<Rightarrow> Inl SyntaxError
                | Some json \<Rightarrow>
                    (case get_prop json ''version'' of
                       Inl err \<Rightarrow> Inl err
                     | Inr v \<Rightarrow>
                         if v \<noteq> Some version then Inr None
                         else Inr (Some (delete_prop json ''version'')))))"

text \<open>
  A property name that is an array index: the decimal numeral, without leading zeros, of
  an integer from \<open>0\<close> to \<open>2\<^sup>3\<^sup>2 - 2\<close>. An object enumerates these names first, in
  ascending order, whenever they were created.
\<close>

definition is_digit :: "char \<Rightarrow> bool" where
  "is_digit c = (48 \<le> (of_char c :: nat) \<and> (of_char c :: nat) \<le> 57)"

definition digits_value :: "string \<Rightarrow> int" where
  "digits_value ds = foldl (\<lambda>acc c. 10 * acc + (of_char c - 48)) 0 ds"

definition array_index :: "string \<Rightarrow> int option" where
  "array_index k =
     (if k \<noteq> [] \<and> list_all is_digit k \<and> (hd k \<noteq> CHR ''0'' \<or> tl k = [])
         \<and> digits_value k \<le> 4294967294
      then Some (digits_value k) else None)"

text \<open>
  \<^verbatim>\<open>obj[k] = v\<close> on the list of properties: a property that is there keeps its place and
  takes the new value; a new array index goes before the first index above it and
  before every other name; any other new name goes last.
\<close>

fun insert_index :: "int \<Rightarrow> string \<times> json \<Rightarrow> (string \<times> json) list \<Rightarrow> (string \<times> json) list" where
  "insert_index n p [] = [p]"
| "insert_index n p (q # qs) =
     (case array_index (fst q) of
        Some m \<Rightarrow> if m < n then q # insert_index n p qs else p # q # qs
      | None \<Rightarrow> p # q # qs)"

definition set_prop :: "string \<Rightarrow> json \<Rightarrow> (string \<times> json) list \<Rightarrow> (string \<times> json) list" where
  "set_prop k v ps =
     (case map_of ps k of
        Some old \<Rightarrow> map (\<lambda>p. if fst p = k then (k, v) else p) ps
      | None \<Rightarrow>
          (case array_index k of
             Some n \<Rightarrow> insert_index n (k, v) ps
           | None \<Rightarrow> ps @ [(k, v)]))"

text \<open>
  \<^verbatim>\<open>{ version, ...data }\<close>: the property \<^verbatim>\<open>version\<close> is created first, then every property
  of \<^verbatim>\<open>data\<close> is set in turn.
\<close>

definition spread :: "(string \<times> json) list \<Rightarrow> (string \<times> json) list \<Rightarrow> (string \<times> json) list" where
  "spread obj data = foldl (\<lambda>acc p. set_prop (fst p) (snd p) acc) obj data"



text \<open>\<^verbatim>\<open>write\<close>, line 84. The string is written in UTF-8.\<close>

definition jsonCache_write ::
  "runtime \<Rightarrow> string \<Rightarrow> json \<Rightarrow> (string \<times> json) list \<Rightarrow> filesystem \<Rightarrow> js_error + filesystem" where
  "jsonCache_write rt path version data fs =
     writeFileSync path
       (utf8_encode rt (JSON_stringify (JObj (spread [(''version'', version)] data)))) fs"

section \<open>\<^verbatim>\<open>loadConfig\<close>, lines 8-69\<close>

text \<open>
  The type parameter of the cache is \<^verbatim>\<open>{ files: [path: string, hash: string][] }\<close>, an
  unchecked cast of what \<^verbatim>\<open>JSON.parse\<close> returned. \<open>dep_record\<close> is the pair the
  loader writes at lines 47-50.
\<close>

definition dep_record :: "string \<Rightarrow> string \<Rightarrow> json" where
  "dep_record path hash = JArr [JStr path, JStr hash]"

text \<open>
  The destructuring \<^verbatim>\<open>[path, hash]\<close> of line 22, with \<^verbatim>\<open>hash\<close> undefined (\<open>None\<close>) where
  there is no second entry. An array gives its first two entries, a string its first two
  characters; \<^verbatim>\<open>null\<close>, a boolean, a number and an object cannot be destructured. A
  \<^verbatim>\<open>path\<close> that is undefined or not a string makes \<^verbatim>\<open>readFileSync\<close> raise a \<^verbatim>\<open>TypeError\<close>,
  which \<^verbatim>\<open>readMaybeFileSync\<close> throws again (a number apart, which Node reads as a file
  descriptor: the model reports the \<^verbatim>\<open>TypeError\<close> there too). \<open>None\<close> stands for all
  these errors.
\<close>

fun dep_of :: "json \<Rightarrow> (string \<times> json option) option" where
  "dep_of (JArr (JStr path # rest)) =
     Some (path, case rest of [] \<Rightarrow> None | hash # _ \<Rightarrow> Some hash)"
| "dep_of (JStr (c # cs)) =
     Some ([c], case cs of [] \<Rightarrow> None | d # _ \<Rightarrow> Some (JStr [d]))"
| "dep_of v = None"

text \<open>
  The callback of \<^verbatim>\<open>files.some\<close>, lines 22-25:
  \<^verbatim>\<open>!content || getHash(content) !== hash\<close>. \<^verbatim>\<open>!content\<close> holds when the file is
  missing and when its text is empty.
\<close>

definition changed :: "runtime \<Rightarrow> string option \<Rightarrow> json option \<Rightarrow> bool" where
  "changed rt content hash =
     (case content of
        None \<Rightarrow> True
      | Some text \<Rightarrow> text = [] \<or> Some (JStr (getHash rt (Text text))) \<noteq> hash)"

text \<open>\<^verbatim>\<open>files.some(...)\<close> stops at the first element for which the callback holds.\<close>

fun some_changed :: "runtime \<Rightarrow> filesystem \<Rightarrow> json list \<Rightarrow> js_error + bool" where
  "some_changed rt fs [] = Inr False"
| "some_changed rt fs (e # es) =
     (case dep_of e of
        None \<Rightarrow> Inl TypeError
      | Some (path, hash) \<Rightarrow>
          (case readMaybeFileSync rt fs path of
             Inl err \<Rightarrow> Inl err
           | Inr content \<Rightarrow>
               if changed rt content hash then Inr True else some_changed rt fs es))"

text \<open>
  The condition of the \<^verbatim>\<open>if\<close> at lines 20-26, on the value of
  \<^verbatim>\<open>cache.read()?.files\<close>: \<open>Inr None\<close> where it holds (the entry is compiled),
  \<open>Inr (Some es)\<close> where it does not, with \<open>es\<close> the elements of \<^verbatim>\<open>files\<close>. A truthy
  value that is not an array has no method \<^verbatim>\<open>some\<close>.
\<close>

definition validate ::
  "runtime \<Rightarrow> filesystem \<Rightarrow> json option \<Rightarrow> js_error + json list option" where
  "validate rt fs cached =
     (case cached of
        None \<Rightarrow> Inr None
      | Some v \<Rightarrow>
          if \<not> truthy_json v then Inr None
          else (case v of
                  JArr es \<Rightarrow>
                    (case some_changed rt fs es of
                       Inl err \<Rightarrow> Inl err
                     | Inr True \<Rightarrow> Inr None
                     | Inr False \<Rightarrow> Inr (Some es))
                | _ \<Rightarrow> Inl TypeError))"

text \<open>
  Lines 47-50: one pair for every key of \<^verbatim>\<open>metafile.inputs\<close>, the hash taken from the
  bytes that \<^verbatim>\<open>readFileSync(path)\<close> returns.
\<close>

fun hash_inputs :: "runtime \<Rightarrow> filesystem \<Rightarrow> string list \<Rightarrow> js_error + json list" where
  "hash_inputs rt fs [] = Inr []"
| "hash_inputs rt fs (path # paths) =
     (case readFileSync fs path of
        Inl err \<Rightarrow> Inl err
      | Inr bytes \<Rightarrow>
          (case hash_inputs rt fs paths of
             Inl err \<Rightarrow> Inl err
           | Inr rest \<Rightarrow> Inr (dep_record path (getHash rt (Buffer bytes)) # rest)))"

text \<open>
  Lines 27-52, the body of the \<^verbatim>\<open>if\<close>: build, print the messages, hash the inputs,
  write the cache record, write the marker file. Each step that raises ends the call
  with what the steps before it have done.
\<close>

definition rebuild ::
  "runtime \<Rightarrow> string \<Rightarrow> string \<Rightarrow> string \<Rightarrow> world \<Rightarrow> (js_error + json list) \<times> world" where
  \<open>rebuild rt entryPoint cacheDir output w =
     (let w1 = w\<lparr>trace := trace w @ [Build entryPoint output]\<rparr> in
      case esbuild rt entryPoint output (disk w) of
        Inl err \<Rightarrow> (Inl err, w1)
      | Inr (result, fs1) \<Rightarrow>
          (let w2 = w1\<lparr>disk := fs1, trace := logEsbuildErrors rt result (trace w1)\<rparr> in
           case hash_inputs rt fs1 (inputs result) of
             Inl err \<Rightarrow> (Inl err, w2)
           | Inr deps \<Rightarrow>
               (case jsonCache_write rt (path_join rt cacheDir ''config-hashes.json'')
                       (JNum 4) [(''files'', JArr deps)] fs1 of
                  Inl err \<Rightarrow> (Inl err, w2)
                | Inr fs2 \<Rightarrow>
                    (case writeFileSync (path_join rt cacheDir ''package.json'')
                            (utf8_encode rt ''{ "type": "module" }'') fs2 of
                       Inl err \<Rightarrow> (Inl err, w2\<lparr>disk := fs2\<rparr>)
                     | Inr fs3 \<Rightarrow> (Inr deps, w2\<lparr>disk := fs3\<rparr>)))))\<close>

text \<open>
  \<^verbatim>\<open>files.map((f) => f[0])\<close>, line 67. Every element that reaches this line has been
  written at lines 47-50 or destructured at line 22 with a string for its path, and
  \<^verbatim>\<open>f[0]\<close> is that string.
\<close>

fun paths_of :: "json list \<Rightarrow> js_error + string list" where
  "paths_of [] = Inr []"
| "paths_of (e # es) =
     (case dep_of e of
        None \<Rightarrow> Inl TypeError
      | Some (path, hash) \<Rightarrow>
          (case paths_of es of Inl err \<Rightarrow> Inl err | Inr rest \<Rightarrow> Inr (path # rest)))"

text \<open>What \<^verbatim>\<open>loadConfig\<close> returns, lines 62-68.\<close>

record loaded =
  config :: jsval
  files :: "string list"

text \<open>The message of line 60.\<close>

definition missing_export :: "string \<Rightarrow> string" where
  \<open>missing_export entryPoint = entryPoint @ '' doesn't have a "config" export''\<close>

text \<open>
  Lines 55-68: import the bundle, check the export \<^verbatim>\<open>config\<close> (a module without it
  gives \<^verbatim>\<open>undefined\<close>), call and await it when it is a function. The module and its
  function are taken to leave the files as they are.
\<close>

definition load_export ::
  "runtime \<Rightarrow> string \<Rightarrow> string \<Rightarrow> json list \<Rightarrow> world \<Rightarrow> (js_error + loaded option) \<times> world" where
  "load_export rt entryPoint output deps w =
     (let path = path_join rt (cwd rt) output;
          w1 = w\<lparr>trace := trace w @ [Import path (clock w)]\<rparr> in
      case dyn_import rt path (clock w) (disk w) of
        Inl err \<Rightarrow> (Inl err, w1)
      | Inr module \<Rightarrow>
          (let exported = (case map_of module ''config'' of None \<Rightarrow> VUndefined | Some v \<Rightarrow> v) in
           if \<not> truthy exported then (Inl (Error (missing_export entryPoint)), w1)
           else
             (case (if is_function exported
                    then (case call exported of Inl err \<Rightarrow> Inl err | Inr r \<Rightarrow> await r)
                    else Inr exported) of
                Inl err \<Rightarrow> (Inl err, w1)
              | Inr c \<Rightarrow>
                  (case paths_of deps of
                     Inl err \<Rightarrow> (Inl err, w1)
                   | Inr ps \<Rightarrow> (Inr (Some \<lparr>config = c, files = ps\<rparr>), w1)))))"

text \<open>\<^verbatim>\<open>cache.read()?.files\<close>, line 19.\<close>

definition cached_files :: "json option \<Rightarrow> js_error + json option" where
  "cached_files cached = (case cached of None \<Rightarrow> Inr None | Some json \<Rightarrow> get_prop json ''files'')"

text \<open>
  Lines 11-53: everything before the import. \<open>Inr None\<close> is the \<^verbatim>\<open>undefined\<close> of line 14,
  \<open>Inr (Some deps)\<close> the value of the variable \<^verbatim>\<open>files\<close> at line 54, read from the cache
  or made by the build. The schema version of the cache is \<open>4\<close>.
\<close>

definition resolve_deps ::
  "runtime \<Rightarrow> string \<Rightarrow> world \<Rightarrow> (js_error + json list option) \<times> world" where
  "resolve_deps rt name w =
     (let entryPoint = name @ ''.config.ts'';
          cacheDir = ''node_modules/.'' @ name;
          output = path_join rt cacheDir ''config.js''
      in if \<not> existsSync (disk w) entryPoint then (Inr None, w)
         else
           (case jsonCache_read rt (path_join rt cacheDir ''config-hashes.json'')
                   (JNum 4) (disk w) of
              Inl err \<Rightarrow> (Inl err, w)
            | Inr cached \<Rightarrow>
                (case cached_files cached of
                   Inl err \<Rightarrow> (Inl err, w)
                 | Inr stored \<Rightarrow>
                     (case validate rt (disk w) stored of
                        Inl err \<Rightarrow> (Inl err, w)
                      | Inr None \<Rightarrow>
                          (case rebuild rt entryPoint cacheDir output w of
                             (Inl err, w') \<Rightarrow> (Inl err, w')
                           | (Inr deps, w') \<Rightarrow> (Inr (Some deps), w'))
                      | Inr (Some deps) \<Rightarrow> (Inr (Some deps), w)))))"

text \<open>The whole function: lines 11-53, then lines 55-68.\<close>

definition loadConfig ::
  "runtime \<Rightarrow> string \<Rightarrow> world \<Rightarrow> (js_error + loaded option) \<times> world" where
  "loadConfig rt name w =
     (case resolve_deps rt name w of
        (Inl err, w') \<Rightarrow> (Inl err, w')
      | (Inr None, w') \<Rightarrow> (Inr None, w')
      | (Inr (Some deps), w') \<Rightarrow>
          load_export rt (name @ ''.config.ts'')
            (path_join rt (''node_modules/.'' @ name) ''config.js'') deps w')"

text \<open>How often a trace shows the build capability called.\<close>

fun is_build :: "effect \<Rightarrow> bool" where
  "is_build (Build entry out) = True"
| "is_build e = False"

definition build_calls :: "effect list \<Rightarrow> nat" where
  "build_calls tr = length (filter is_build tr)"

section \<open>A runtime to evaluate the loader on concrete projects\<close>

text \<open>
  A parser for the JSON texts of type \<open>json\<close>: objects, arrays, strings with the
  two-character escapes, integers, the three literals, white space between tokens. A
  number with a fraction or an exponent and a \<^verbatim>\<open>\u\<close> escape are not in \<open>json\<close> and are
  refused. The first argument of \<open>parse_value\<close> bounds the nesting depth.
\<close>

definition is_ws :: "char \<Rightarrow> bool" where
  "is_ws c = (c = CHR '' '' \<or> c = CHR 0x09 \<or> c = CHR 0x0A \<or> c = CHR 0x0D)"

fun skip_ws :: "string \<Rightarrow> string" where
  "skip_ws [] = []"
| "skip_ws (c # cs) = (if is_ws c then skip_ws cs else c # cs)"

definition unescape :: "char \<Rightarrow> char option" where
  "unescape c =
     (if c = CHR 0x22 \<or> c = CHR 0x5C \<or> c = CHR ''/'' then Some c
      else if c = CHR ''b'' then Some (CHR 0x08)
      else if c = CHR ''f'' then Some (CHR 0x0C)
      else if c = CHR ''n'' then Some (CHR 0x0A)
      else if c = CHR ''r'' then Some (CHR 0x0D)
      else if c = CHR ''t'' then Some (CHR 0x09)
      else None)"

text \<open>The characters of a string after its opening quote, and what follows the closing one.\<close>

fun parse_chars :: "string \<Rightarrow> (string \<times> string) option" where
  "parse_chars [] = None"
| "parse_chars (c # cs) =
     (if c = CHR 0x22 then Some ([], cs)
      else if c = CHR 0x5C then
        (case cs of
           [] \<Rightarrow> None
         | e # rest \<Rightarrow>
             (case unescape e of
                None \<Rightarrow> None
              | Some ch \<Rightarrow>
                  (case parse_chars rest of
                     None \<Rightarrow> None
                   | Some (s, r) \<Rightarrow> Some (ch # s, r))))
      else if (of_char c :: nat) < 32 then None
      else (case parse_chars cs of None \<Rightarrow> None | Some (s, r) \<Rightarrow> Some (c # s, r)))"

definition parse_number :: "string \<Rightarrow> (json \<times> string) option" where
  "parse_number cs =
     (let negative = (cs \<noteq> [] \<and> hd cs = CHR ''-'');
          body = (if negative then tl cs else cs);
          ds = takeWhile is_digit body;
          rest = dropWhile is_digit body
      in if ds = [] then None
         else if hd ds = CHR ''0'' \<and> tl ds \<noteq> [] then None
         else if rest \<noteq> [] \<and> hd rest \<in> {CHR ''.'', CHR ''e'', CHR ''E''} then None
         else Some (JNum (if negative then - digits_value ds else digits_value ds), rest))"

definition parse_literal :: "string \<Rightarrow> (json \<times> string) option" where
  "parse_literal cs =
     (if take 4 cs = ''null'' then Some (JNull, drop 4 cs)
      else if take 4 cs = ''true'' then Some (JBool True, drop 4 cs)
      else if take 5 cs = ''false'' then Some (JBool False, drop 5 cs)
      else parse_number cs)"

fun parse_value :: "nat \<Rightarrow> string \<Rightarrow> (json \<times> string) option"
  and parse_elements :: "nat \<Rightarrow> string \<Rightarrow> (json list \<times> string) option"
  and parse_members :: "nat \<Rightarrow> string \<Rightarrow> ((string \<times> json) list \<times> string) option" where
  "parse_value 0 cs = None"
| "parse_value (Suc n) cs =
     (case skip_ws cs of
        [] \<Rightarrow> None
      | c # r \<Rightarrow>
          if c = CHR 0x22 then
            (case parse_chars r of None \<Rightarrow> None | Some (s, r') \<Rightarrow> Some (JStr s, r'))
          else if c = CHR ''['' then
            (if take 1 (skip_ws r) = '']'' then Some (JArr [], drop 1 (skip_ws r))
             else (case parse_elements n r of
                     None \<Rightarrow> None
                   | Some (vs, r') \<Rightarrow> Some (JArr vs, r')))
          else if c = CHR ''{'' then
            (if take 1 (skip_ws r) = ''}'' then Some (JObj [], drop 1 (skip_ws r))
             else (case parse_members n r of
                     None \<Rightarrow> None
                   | Some (ps, r') \<Rightarrow> Some (JObj (spread [] ps), r')))
          else parse_literal (c # r))"
| "parse_elements 0 cs = None"
| "parse_elements (Suc n) cs =
     (case parse_value n cs of
        None \<Rightarrow> None
      | Some (v, r) \<Rightarrow>
          (case skip_ws r of
             [] \<Rightarrow> None
           | c # r' \<Rightarrow>
               if c = CHR '']'' then Some ([v], r')
               else if c = CHR '','' then
                 (case parse_elements n r' of
                    None \<Rightarrow> None
                  | Some (vs, r'') \<Rightarrow> Some (v # vs, r''))
               else None))"
| "parse_members 0 cs = None"
| "parse_members (Suc n) cs =
     (case skip_ws cs of
        [] \<Rightarrow> None
      | q # r \<Rightarrow>
          if q \<noteq> CHR 0x22 then None
          else
            (case parse_chars r of
               None \<Rightarrow> None
             | Some (k, r1) \<Rightarrow>
                 (case skip_ws r1 of
                    [] \<Rightarrow> None
                  | colon # r2 \<Rightarrow>
                      if colon \<noteq> CHR '':'' then None
                      else
                        (case parse_value n r2 of
                           None \<Rightarrow> None
                         | Some (v, r3) \<Rightarrow>
                             (case skip_ws r3 of
                                [] \<Rightarrow> None
                              | c # r4 \<Rightarrow>
                                  if c = CHR ''}'' then Some ([(k, v)], r4)
                                  else if c = CHR '','' then
                                    (case parse_members n r4 of
                                       None \<Rightarrow> None
                                     | Some (ps, r5) \<Rightarrow> Some ((k, v) # ps, r5))
                                  else None)))))"

text \<open>
  The whole text is one value; a property given twice keeps its first place and its
  last value.
\<close>

definition parse_json :: "string \<Rightarrow> json option" where
  "parse_json text =
     (case parse_value (Suc (length text)) text of
        None \<Rightarrow> None
      | Some (v, rest) \<Rightarrow> if skip_ws rest = [] then Some v else None)"

text \<open>
  A stand-in for the digest: a checksum of the bytes in eight hexadecimal digits. It is a
  function of the bytes alone, which is all the loader asks of a digest; SHA-1 itself is
  not modelled.
\<close>

fun mix :: "int \<Rightarrow> string \<Rightarrow> int" where
  "mix h [] = h"
| "mix h (c # cs) = mix ((33 * h + of_char c) mod 4294967296) cs"

definition checksum_hex :: "string \<Rightarrow> string" where
  "checksum_hex bytes =
     map (\<lambda>d. hex_digit (nat (mix 5381 bytes div d mod 16)))
       [268435456, 16777216, 1048576, 65536, 4096, 256, 16, 1]"

text \<open>
  A project of ASCII files, whose bundle exports \<open>exports\<close>. Paths are relative to the
  working directory, which \<open>cwd\<close> gives as the empty prefix, and UTF-8 coding is the
  identity. The build reads the entry point and reports it with \<open>imports\<close>, the local
  files it imports, as its inputs; the import needs the bundle to be there.
\<close>

definition sample_build ::
  "string list \<Rightarrow> string \<Rightarrow> string \<Rightarrow> filesystem \<Rightarrow> js_error + (build_result \<times> filesystem)" where
  "sample_build imports entry outfile disk0 =
     (case readFileSync disk0 entry of
        Inl err \<Rightarrow> Inl (BuildFailure [''Could not resolve '' @ entry])
      | Inr source \<Rightarrow>
          Inr (\<lparr>errors = [], warnings = [], inputs = entry # imports\<rparr>,
               disk0(outfile := File ''bundle'')))"

definition sample_import ::
  "(string \<times> jsval) list \<Rightarrow> string \<Rightarrow> nat \<Rightarrow> filesystem \<Rightarrow> js_error + (string \<times> jsval) list" where
  "sample_import exports path token disk0 =
     (case readFileSync disk0 path of
        Inl err \<Rightarrow> Inl (Error ''ERR_MODULE_NOT_FOUND'')
      | Inr bundle \<Rightarrow> Inr exports)"

definition sample_format :: "string list \<Rightarrow> msg_kind \<Rightarrow> bool \<Rightarrow> string list" where
  "sample_format msgs kind color = msgs"

definition sample_join :: "string \<Rightarrow> string \<Rightarrow> string" where
  "sample_join a b = (if a = [] then b else a @ ''/'' @ b)"

definition sample_runtime :: "string list \<Rightarrow> (string \<times> jsval) list \<Rightarrow> runtime" where
  "sample_runtime imports exports =
     \<lparr>sha1_hex = checksum_hex,
      utf8_decode = id,
      utf8_encode = id,
      JSON_parse = parse_json,
      path_join = sample_join,
      cwd = [],
      esbuild = sample_build imports,
      formatMessagesSync = sample_format,
      dyn_import = sample_import exports,
      env_NO_COLOR = False,
      argv = []\<rparr>"

text \<open>
  Two projects in one directory. \<^verbatim>\<open>app.config.ts\<close> imports \<^verbatim>\<open>ports.ts\<close>;
  \<^verbatim>\<open>docs.config.ts\<close> imports \<^verbatim>\<open>empty.ts\<close>, a file of no bytes. Nothing has been built.
\<close>

definition project_disk :: filesystem where
  \<open>project_disk =
     (\<lambda>path. Missing)
       (''app.config.ts'' := File ''import { port } from "./ports"; export const config = { port }'',
        ''ports.ts'' := File ''export const port = 3000'',
        ''docs.config.ts'' := File ''import "./empty"; export const config = { title: "Docs" }'',
        ''empty.ts'' := File [])\<close>

definition fresh_world :: world where
  "fresh_world = \<lparr>disk = project_disk, trace = [], clock = 0\<rparr>"

definition app_exports :: "(string \<times> jsval) list" where
  "app_exports = [(''config'', VObject [(''port'', VNum 3000)])]"

definition app_runtime :: runtime where
  "app_runtime = sample_runtime [''ports.ts''] app_exports"

definition docs_runtime :: runtime where
  "docs_runtime = sample_runtime [''empty.ts''] [(''config'', VObject [(''title'', VStr ''Docs'')])]"

text \<open>The same directory after both projects have been built, as the loader leaves it.\<close>

definition built_disk :: filesystem where
  \<open>built_disk =
     project_disk
       (''node_modules/.app/config.js'' := File ''bundle'',
        ''node_modules/.app/config-hashes.json'' :=
          File ''{"version":4,"files":[["app.config.ts","07e4003e"],["ports.ts","1d5f86d3"]]}'',
        ''node_modules/.app/package.json'' := File ''{ "type": "module" }'',
        ''node_modules/.docs/config.js'' := File ''bundle'',
        ''node_modules/.docs/config-hashes.json'' :=
          File ''{"version":4,"files":[["docs.config.ts","1d7fb0e8"],["empty.ts","00001505"]]}'',
        ''node_modules/.docs/package.json'' := File ''{ "type": "module" }'')\<close>

definition built_world :: world where
  "built_world = \<lparr>disk = built_disk, trace = [], clock = 1\<rparr>"

text \<open>Two calls for \<^verbatim>\<open>docs\<close> in a row, and nothing else touching the files.\<close>

definition first_call :: "(js_error + loaded option) \<times> world" where
  "first_call = loadConfig docs_runtime ''docs'' fresh_world"

definition second_call :: "(js_error + loaded option) \<times> world" where
  "second_call = loadConfig docs_runtime ''docs'' (snd first_call)"

text \<open>A build that rejects, modules with other exports, a cache file cut short.\<close>

definition failing_build ::
  "string \<Rightarrow> string \<Rightarrow> filesystem \<Rightarrow> js_error + (build_result \<times> filesystem)" where
  \<open>failing_build entry outfile disk0 = Inl (BuildFailure [''Unexpected "}"''])\<close>

definition failing_runtime :: runtime where
  "failing_runtime = app_runtime\<lparr>esbuild := failing_build\<rparr>"

definition deferred_exports :: "(string \<times> jsval) list" where
  "deferred_exports =
     [(''config'', VFunction (Inr (VPromise (Inr (VObject [(''port'', VNum 3000)])))))]"

definition falsy_exports :: "(string \<times> jsval) list" where
  "falsy_exports = [(''config'', VNum 0)]"

definition other_exports :: "(string \<times> jsval) list" where
  "other_exports = [(''default'', VObject [(''port'', VNum 3000)])]"

definition deferred_runtime :: runtime where
  "deferred_runtime = sample_runtime [''ports.ts''] deferred_exports"

definition falsy_runtime :: runtime where
  "falsy_runtime = sample_runtime [''ports.ts''] falsy_exports"

definition other_runtime :: runtime where
  "other_runtime = sample_runtime [''ports.ts''] other_exports"

definition truncated_disk :: filesystem where
  \<open>truncated_disk =
     built_disk(''node_modules/.app/config-hashes.json'' := File ''{"version":4,"files":[["app.co'')\<close>

definition garbled_disk :: filesystem where
  \<open>garbled_disk =
     built_disk(''node_modules/.app/config-hashes.json'' := File ''<<<<<<< HEAD'')\<close>

text \<open>
  The directory after the builds, with \<^verbatim>\<open>ports.ts\<close> deleted, and with the entry file
  \<^verbatim>\<open>app.config.ts\<close> deleted.
\<close>

definition ports_deleted_world :: world where
  "ports_deleted_world = built_world\<lparr>disk := built_disk(''ports.ts'' := Missing)\<rparr>"

definition entry_deleted_world :: world where
  "entry_deleted_world = built_world\<lparr>disk := built_disk(''app.config.ts'' := Missing)\<rparr>"

text \<open>
  Of a pair of the cache record: the file at its path can be read or is missing (reading
  it raises nothing but \<^verbatim>\<open>ENOENT\<close>); the file at its path does not exist.
\<close>

definition can_read :: "filesystem \<Rightarrow> json \<Rightarrow> bool" where
  "can_read fs e =
     (case dep_of e of
        None \<Rightarrow> False
      | Some (path, hash) \<Rightarrow> (case fs path of Fault code \<Rightarrow> False | _ \<Rightarrow> True))"

definition is_deleted :: "filesystem \<Rightarrow> json \<Rightarrow> bool" where
  "is_deleted fs e =
     (case dep_of e of None \<Rightarrow> False | Some (path, hash) \<Rightarrow> \<not> existsSync fs path)"

text \<open>
  Of a pair of the cache record, in the words of the spec: the file at its path still
  exists and its freshly computed fingerprint equals the stored one. And: the file at
  its path exists and has no text.
\<close>

definition unchanged_dep :: "runtime \<Rightarrow> filesystem \<Rightarrow> json \<Rightarrow> bool" where
  "unchanged_dep rt fs e =
     (case dep_of e of
        None \<Rightarrow> False
      | Some (path, hash) \<Rightarrow>
          (case fs path of
             File bytes \<Rightarrow> hash = Some (JStr (getHash rt (Text (utf8_decode rt bytes))))
           | _ \<Rightarrow> False))"

definition empty_dep :: "runtime \<Rightarrow> filesystem \<Rightarrow> json \<Rightarrow> bool" where
  "empty_dep rt fs e =
     (case dep_of e of
        None \<Rightarrow> False
      | Some (path, hash) \<Rightarrow>
          (case fs path of File bytes \<Rightarrow> utf8_decode rt bytes = [] | _ \<Rightarrow> False))"


section \<open>Awaiting, and the paths of a dependency list\<close>

lemma await_not_promise: "await v = Inr c \<Longrightarrow> \<not> is_promise c"
  by (induction v rule: await.induct) auto

lemma await_size: "await v = Inr c \<Longrightarrow> size c \<le> size v"
  by (induction v rule: await.induct) auto

lemma call_await_smaller:
  assumes "call f = Inr r" and "await r = Inr c"
  shows "c \<noteq> f"
proof
  assume "c = f"
  from assms(1) obtain o' where f: "f = VFunction o'" by (cases f) auto
  with assms(1) have "o' = Inr r" by simp
  with f have "size r < size f" by simp
  moreover from assms(2) have "size c \<le> size r" by (rule await_size)
  ultimately show False using \<open>c = f\<close> by simp
qed

lemma some_changed_paths:
  "some_changed rt fs es = Inr False \<Longrightarrow> \<exists>ps. paths_of es = Inr ps"
  by (induction es) (auto split: option.splits sum.splits if_splits)

lemma hash_inputs_paths:
  "hash_inputs rt fs ps = Inr deps \<Longrightarrow> paths_of deps = Inr ps"
  by (induction ps arbitrary: deps) (auto simp: dep_record_def split: sum.splits)

lemma validate_paths:
  "validate rt fs stored = Inr (Some es) \<Longrightarrow> \<exists>ps. paths_of es = Inr ps"
  by (auto simp: validate_def some_changed_paths split: option.splits if_splits json.splits sum.splits bool.splits)

lemma rebuild_paths:
  "rebuild rt e c out w = (Inr deps, w') \<Longrightarrow> \<exists>ps. paths_of deps = Inr ps"
  by (auto simp: rebuild_def Let_def hash_inputs_paths split: sum.splits prod.splits)

lemma resolve_deps_paths:
  "resolve_deps rt name w = (Inr (Some deps), w1) \<Longrightarrow> \<exists>ps. paths_of deps = Inr ps"
  by (auto simp: resolve_deps_def Let_def split: if_splits sum.splits option.splits prod.splits
      dest: validate_paths rebuild_paths)

section \<open>The object that \<^verbatim>\<open>write\<close> prints\<close>




lemma array_index_files: "array_index ''files'' = None"
  by code_simp

lemma spread_version_files:
  "spread [(''version'', v)] [(''files'', x)] = [(''version'', v), (''files'', x)]"
  by (simp add: spread_def set_prop_def array_index_files)















section \<open>The text that \<^verbatim>\<open>write\<close> prints\<close>










section \<open>The build in the trace\<close>

lemma logEsbuildErrors_build_calls:
  "build_calls (logEsbuildErrors rt res tr) = build_calls tr"
  by (simp add: logEsbuildErrors_def build_calls_def)

lemma rebuild_build_calls:
  "build_calls (trace (snd (rebuild rt e c out w))) = Suc (build_calls (trace w))"
  by (auto simp: rebuild_def Let_def logEsbuildErrors_build_calls split: sum.splits prod.splits)
     (simp_all add: build_calls_def)

lemma load_export_build_calls:
  "build_calls (trace (snd (load_export rt e out deps w))) = build_calls (trace w)"
  by (auto simp: load_export_def Let_def build_calls_def split: sum.splits option.splits)

lemma load_export_disk:
  "disk (snd (load_export rt e out deps w)) = disk w"
  by (auto simp: load_export_def Let_def split: sum.splits option.splits)

lemma resolve_deps_absent:
  "\<not> existsSync (disk w) (name @ ''.config.ts'') \<Longrightarrow> resolve_deps rt name w = (Inr None, w)"
  by (simp add: resolve_deps_def)

lemma rebuild_failure:
  "esbuild rt e out (disk w) = Inl err \<Longrightarrow>
   rebuild rt e c out w = (Inl err, w\<lparr>trace := trace w @ [Build e out]\<rparr>)"
  by (simp add: rebuild_def)

lemma resolve_deps_build_failure:
  assumes "esbuild rt (name @ ''.config.ts'')
             (path_join rt (''node_modules/.'' @ name) ''config.js'') (disk w) = Inl err"
  shows "disk (snd (resolve_deps rt name w)) = disk w"
    and "build_calls (trace (snd (resolve_deps rt name w))) \<noteq> build_calls (trace w)
           \<Longrightarrow> fst (resolve_deps rt name w) = Inl err"
    and "fst (resolve_deps rt name w) = Inr (Some deps)
           \<Longrightarrow> trace (snd (resolve_deps rt name w)) = trace w"
  using assms
  by (auto simp: resolve_deps_def Let_def rebuild_failure build_calls_def
      split: sum.splits option.splits if_splits)

section \<open>The import and the export\<close>

lemma loadConfig_after_resolve:
  "resolve_deps rt name w = (Inr (Some deps), w1) \<Longrightarrow>
   loadConfig rt name w =
     load_export rt (name @ ''.config.ts'')
       (path_join rt (''node_modules/.'' @ name) ''config.js'') deps w1"
  by (simp add: loadConfig_def)

lemma load_export_not_truthy:
  assumes "dyn_import rt (path_join rt (cwd rt) out) (clock w) (disk w) = Inr module"
    and "\<not> truthy (case map_of module ''config'' of None \<Rightarrow> VUndefined | Some v \<Rightarrow> v)"
  shows "fst (load_export rt entry out deps w) = Inl (Error (missing_export entry))"
  using assms by (simp add: load_export_def Let_def)

lemma load_export_function:
  assumes "dyn_import rt (path_join rt (cwd rt) out) (clock w) (disk w) = Inr module"
    and "map_of module ''config'' = Some exported"
    and "call exported = Inr r" and "await r = Inr c" and "paths_of deps = Inr ps"
  shows "fst (load_export rt entry out deps w) = Inr (Some \<lparr>config = c, files = ps\<rparr>)"
proof -
  from assms(3) obtain o' where "exported = VFunction o'" by (cases exported) auto
  with assms show ?thesis by (simp add: load_export_def Let_def)
qed

lemma load_export_plain:
  assumes "dyn_import rt (path_join rt (cwd rt) out) (clock w) (disk w) = Inr module"
    and "map_of module ''config'' = Some exported"
    and "\<not> is_function exported" and "truthy exported" and "paths_of deps = Inr ps"
  shows "fst (load_export rt entry out deps w) = Inr (Some \<lparr>config = exported, files = ps\<rparr>)"
  using assms by (simp add: load_export_def Let_def)

section \<open>Deleted dependencies\<close>

lemma some_changed_deleted:
  assumes "list_all (can_read fs) es" and "list_ex (is_deleted fs) es"
  shows "some_changed rt fs es = Inr True"
  using assms
proof (induction es)
  case Nil
  then show ?case by simp
next
  case (Cons e es)
  from Cons.prems(1) obtain path hash where e: "dep_of e = Some (path, hash)"
    and nf: "\<And>code. fs path \<noteq> Fault code"
    by (auto simp: can_read_def split: option.splits node.splits)
  show ?case
  proof (cases "fs path")
    case (File bytes)
    with e have "\<not> is_deleted fs e" by (simp add: is_deleted_def existsSync_def)
    with Cons.prems have "list_all (can_read fs) es" and "list_ex (is_deleted fs) es" by auto
    then have "some_changed rt fs es = Inr True" by (rule Cons.IH)
    with e File show ?thesis by (simp add: readMaybeFileSync_def readFileSync_def)
  next
    case (Fault code)
    with nf have False by blast
    then show ?thesis ..
  qed (use e in \<open>simp_all add: readMaybeFileSync_def readFileSync_def changed_def\<close>)
qed

lemma resolve_deps_rebuilds:
  assumes "existsSync (disk w) (name @ ''.config.ts'')"
    and "jsonCache_read rt (path_join rt (''node_modules/.'' @ name) ''config-hashes.json'')
           (JNum 4) (disk w) = Inr cached"
    and "cached_files cached = Inr stored"
    and "validate rt (disk w) stored = Inr None"
  shows "build_calls (trace (snd (resolve_deps rt name w))) = Suc (build_calls (trace w))"
proof -
  have "snd (resolve_deps rt name w)
      = snd (rebuild rt (name @ ''.config.ts'') (''node_modules/.'' @ name)
               (path_join rt (''node_modules/.'' @ name) ''config.js'') w)"
    using assms by (simp add: resolve_deps_def Let_def split: prod.splits sum.splits)
  then show ?thesis by (simp add: rebuild_build_calls)
qed

lemma loadConfig_build_calls:
  "build_calls (trace (snd (loadConfig rt name w)))
     = build_calls (trace (snd (resolve_deps rt name w)))"
  by (simp add: loadConfig_def load_export_build_calls split: prod.splits sum.splits option.splits)

section \<open>The condition of lines 20-26\<close>

text \<open>
  For a list of pairs whose files can be read or are missing, \<^verbatim>\<open>files.some(...)\<close> is
  false exactly when every pair is unchanged and none of the files is empty. So the
  cache is taken as valid exactly when every pair is unchanged, as long as no listed file
  is empty; and one empty file among them makes the call compile, whatever the hashes.
\<close>

lemma some_changed_iff:
  assumes "list_all (can_read fs) es"
  shows "some_changed rt fs es
         = Inr (\<not> list_all (\<lambda>e. unchanged_dep rt fs e \<and> \<not> empty_dep rt fs e) es)"
  using assms
proof (induction es)
  case Nil
  then show ?case by simp
next
  case (Cons e es)
  from Cons.prems obtain path hash where e: "dep_of e = Some (path, hash)"
    and nf: "\<And>code. fs path \<noteq> Fault code"
    by (auto simp: can_read_def split: option.splits node.splits)
  from Cons.prems have IH: "some_changed rt fs es
         = Inr (\<not> list_all (\<lambda>e. unchanged_dep rt fs e \<and> \<not> empty_dep rt fs e) es)"
    by (intro Cons.IH) simp
  show ?case
  proof (cases "fs path")
    case (Fault code)
    with nf have False by blast
    then show ?thesis ..
  qed (use e IH in \<open>auto simp: readMaybeFileSync_def readFileSync_def changed_def
        unchanged_dep_def empty_dep_def\<close>)
qed

lemma validate_iff:
  assumes "list_all (can_read fs) es"
    and "list_all (\<lambda>e. \<not> empty_dep rt fs e) es"
  shows "validate rt fs (Some (JArr es))
         = (if list_all (unchanged_dep rt fs) es then Inr (Some es) else Inr None)"
proof -
  from assms(2)
  have "list_all (\<lambda>e. unchanged_dep rt fs e \<and> \<not> empty_dep rt fs e) es
        = list_all (unchanged_dep rt fs) es"
    by (induction es) auto
  with some_changed_iff [OF assms(1), of rt] show ?thesis
    by (simp add: validate_def)
qed

lemma validate_empty_dep:
  assumes "list_all (can_read fs) es" and "list_ex (empty_dep rt fs) es"
  shows "validate rt fs (Some (JArr es)) = Inr None"
proof -
  from assms(2)
  have "\<not> list_all (\<lambda>e. unchanged_dep rt fs e \<and> \<not> empty_dep rt fs e) es"
    by (induction es) auto
  with some_changed_iff [OF assms(1), of rt] show ?thesis
    by (simp add: validate_def)
qed

section \<open>Two calls in a row\<close>

lemma bracket_nonempty: "bracket gap d l r items \<noteq> []"
  by (simp add: bracket_def)

lemma JSON_stringify_object_nonempty: "JSON_stringify (JObj ps) \<noteq> []"
  by (simp add: JSON_stringify_def bracket_nonempty)

lemma rebuild_success:
  assumes "rebuild rt e c out w = (Inr deps, w')"
  obtains result fs1 where
    "esbuild rt e out (disk w) = Inr (result, fs1)"
    "hash_inputs rt fs1 (inputs result) = Inr deps"
    "disk w' = fs1
       (path_join rt c ''config-hashes.json'' :=
          File (utf8_encode rt
            (JSON_stringify (JObj [(''version'', JNum 4), (''files'', JArr deps)]))),
        path_join rt c ''package.json'' :=
          File (utf8_encode rt ''{ \"type\": \"module\" }''))"
  using assms that
  by (auto simp: rebuild_def Let_def jsonCache_write_def writeFileSync_def spread_version_files
      split: sum.splits prod.splits node.splits)

lemma hash_inputs_files:
  "hash_inputs rt fs ps = Inr deps \<Longrightarrow>
   list_all (\<lambda>e. \<exists>path bytes. e = dep_record path (getHash rt (Buffer bytes))
                   \<and> fs path = File bytes \<and> path \<in> set ps) deps"
proof (induction ps arbitrary: deps)
  case Nil
  then show ?case by simp
next
  case (Cons p ps)
  from Cons.prems obtain bytes rest where b: "fs p = File bytes"
    and r: "hash_inputs rt fs ps = Inr rest"
    and d: "deps = dep_record p (getHash rt (Buffer bytes)) # rest"
    by (auto simp: readFileSync_def split: sum.splits node.splits)
  from Cons.IH [OF r]
  have "list_all (\<lambda>e. \<exists>path bytes. e = dep_record path (getHash rt (Buffer bytes))
                   \<and> fs path = File bytes \<and> path \<in> set (p # ps)) rest"
    unfolding list_all_iff by fastforce
  with b d show ?case by auto
qed

text \<open>
  A call that compiled and got as far as the import has written the cache record of its
  inputs. If nothing touches the files afterwards, the next call finds that record
  valid, provided no input is empty, the inputs and the record survive UTF-8 decoding
  and encoding, \<^verbatim>\<open>JSON.parse\<close> reads back what \<^verbatim>\<open>JSON.stringify\<close> printed, and the cache
  and marker files are not among the inputs.
\<close>

lemma second_call_valid:
  assumes first: "resolve_deps rt name w = (Inr (Some deps), w1)"
    and built: "build_calls (trace w1) \<noteq> build_calls (trace w)"
    and same: "disk w2 = disk w1"
    and entry: "existsSync (disk w1) (name @ ''.config.ts'')"
    and paths: "paths_of deps = Inr ps"
    and apart: "path_join rt (''node_modules/.'' @ name) ''config-hashes.json''
                  \<noteq> path_join rt (''node_modules/.'' @ name) ''package.json''"
               "path_join rt (''node_modules/.'' @ name) ''config-hashes.json'' \<notin> set ps"
               "path_join rt (''node_modules/.'' @ name) ''package.json'' \<notin> set ps"
    and json_text: "utf8_decode rt (utf8_encode rt
                      (JSON_stringify (JObj [(''version'', JNum 4), (''files'', JArr deps)])))
                    = JSON_stringify (JObj [(''version'', JNum 4), (''files'', JArr deps)])"
                   "JSON_parse rt (JSON_stringify (JObj [(''version'', JNum 4), (''files'', JArr deps)]))
                    = Some (JObj [(''version'', JNum 4), (''files'', JArr deps)])"
    and sources: "\<forall>p\<in>set ps. \<forall>bytes. disk w1 p = File bytes \<longrightarrow>
                    utf8_decode rt bytes \<noteq> [] \<and> utf8_encode rt (utf8_decode rt bytes) = bytes"
  shows "resolve_deps rt name w2 = (Inr (Some deps), w2)"
proof -
  let ?dir = "''node_modules/.'' @ name"
  let ?cache = "path_join rt ?dir ''config-hashes.json''"
  let ?marker = "path_join rt ?dir ''package.json''"
  let ?text = "JSON_stringify (JObj [(''version'', JNum 4), (''files'', JArr deps)])"
  from first built
  have rb: "rebuild rt (name @ ''.config.ts'') ?dir (path_join rt ?dir ''config.js'') w = (Inr deps, w1)"
    by (auto simp: resolve_deps_def Let_def
        split: if_splits sum.splits option.splits prod.splits)
  from rb obtain result fs1 where
    "esbuild rt (name @ ''.config.ts'') (path_join rt ?dir ''config.js'') (disk w)
       = Inr (result, fs1)"
    and hashed: "hash_inputs rt fs1 (inputs result) = Inr deps"
    and disk1: "disk w1 = fs1(?cache := File (utf8_encode rt ?text),
                  ?marker := File (utf8_encode rt ''{ \"type\": \"module\" }''))"
    by (rule rebuild_success)
  from hash_inputs_paths [OF hashed] paths have ps: "ps = inputs result" by simp
  have cache_file: "disk w1 ?cache = File (utf8_encode rt ?text)"
    using disk1 apart(1) by simp
  have read: "jsonCache_read rt ?cache (JNum 4) (disk w1) = Inr (Some (JObj [(''files'', JArr deps)]))"
    using cache_file json_text JSON_stringify_object_nonempty [of "[(''version'', JNum 4), (''files'', JArr deps)]"]
    by (simp add: jsonCache_read_def readMaybeFileSync_def readFileSync_def)
  have each: "unchanged_dep rt (disk w1) e \<and> \<not> empty_dep rt (disk w1) e \<and> can_read (disk w1) e"
    if "e \<in> set deps" for e
  proof -
    from hash_inputs_files [OF hashed] that obtain path bytes where
      e: "e = dep_record path (getHash rt (Buffer bytes))" and f: "fs1 path = File bytes"
      and p: "path \<in> set ps"
      unfolding list_all_iff ps by blast
    from p apart have "path \<noteq> ?cache" "path \<noteq> ?marker" by auto
    with disk1 f have f1: "disk w1 path = File bytes" by simp
    with sources p have "utf8_decode rt bytes \<noteq> []"
      and "utf8_encode rt (utf8_decode rt bytes) = bytes" by auto
    with e f1 show ?thesis
      by (simp add: unchanged_dep_def empty_dep_def can_read_def dep_record_def)
  qed
  then have "list_all (can_read (disk w1)) deps"
    and "list_all (\<lambda>e. \<not> empty_dep rt (disk w1) e) deps"
    and "list_all (unchanged_dep rt (disk w1)) deps"
    by (simp_all add: list_all_iff)
  from validate_iff [OF this(1,2)] this(3)
  have "validate rt (disk w1) (Some (JArr deps)) = Inr (Some deps)" by simp
  with read entry same show ?thesis
    by (simp add: resolve_deps_def Let_def cached_files_def)
qed

lemma second_call_skips_build:
  assumes "resolve_deps rt name w2 = (Inr (Some deps), w2)"
  shows "build_calls (trace (snd (loadConfig rt name w2))) = build_calls (trace w2)"
  using assms by (simp add: loadConfig_build_calls)

text \<open>
  So it is for \<^verbatim>\<open>app\<close>, whose two files have text: the first call builds, the second
  does not.
\<close>

lemma app_second_call_skips_build:
  "trace (snd (loadConfig app_runtime ''app'' (snd (loadConfig app_runtime ''app'' fresh_world))))
     = [Build ''app.config.ts'' ''node_modules/.app/config.js'',
        Import ''node_modules/.app/config.js'' 0,
        Import ''node_modules/.app/config.js'' 0]"
  by code_simp

section \<open>The claims\<close>

text \<open>
  C8. When the entry file \<^verbatim>\<open><name>.config.ts\<close> does not exist, \<^verbatim>\<open>loadConfig\<close> returns
  \<^verbatim>\<open>undefined\<close> without an error and leaves the world as it found it: no file is written
  (no cache record, bundle or marker), nothing is built, imported or printed.
\<close>

theorem loadConfig_absent_entry:
  assumes "\<not> existsSync (disk w) (name @ ''.config.ts'')"
  shows "loadConfig rt name w = (Inr None, w)"
  using assms by (simp add: loadConfig_def resolve_deps_absent)

theorem loadConfig_absent_entry_witness:
  "\<not> existsSync (disk fresh_world) (''site'' @ ''.config.ts'')
   \<and> loadConfig app_runtime ''site'' fresh_world = (Inr None, fresh_world)"
proof -
  have h: "\<not> existsSync (disk fresh_world) (''site'' @ ''.config.ts'')"
    by (simp add: fresh_world_def project_disk_def existsSync_def)
  from h loadConfig_absent_entry [OF h] show ?thesis by simp
qed

text \<open>
  C3. When the build raises, no file is written by the call: the cache record on disk is
  the one that was there, and there is no partial one. A call that reached the build
  ends with the build's error. The cache is written at line 51 only, after the build
  has returned and its inputs have been hashed.
\<close>

theorem loadConfig_build_failure:
  assumes "esbuild rt (name @ ''.config.ts'')
             (path_join rt (''node_modules/.'' @ name) ''config.js'') (disk w) = Inl err"
  shows "disk (snd (loadConfig rt name w)) = disk w
         \<and> (build_calls (trace (snd (loadConfig rt name w))) \<noteq> build_calls (trace w)
              \<longrightarrow> fst (loadConfig rt name w) = Inl err)"
proof (cases "resolve_deps rt name w")
  case (Pair res w')
  show ?thesis
  proof (cases res)
    case (Inl e)
    with Pair resolve_deps_build_failure(1,2) [OF assms] show ?thesis
      by (auto simp: loadConfig_def)
  next
    case (Inr found)
    show ?thesis
    proof (cases found)
      case None
      with Pair Inr resolve_deps_build_failure(1,2) [OF assms] show ?thesis
        by (auto simp: loadConfig_def)
    next
      case (Some deps)
      with Pair Inr have "fst (resolve_deps rt name w) = Inr (Some deps)" by simp
      from resolve_deps_build_failure(3) [OF assms this] Pair
      have "trace w' = trace w" by simp
      moreover from resolve_deps_build_failure(1) [OF assms] Pair
      have "disk w' = disk w" by simp
      ultimately show ?thesis using Pair Inr Some
        by (simp add: loadConfig_def load_export_disk load_export_build_calls)
    qed
  qed
qed

theorem loadConfig_build_failure_witness:
  \<open>esbuild failing_runtime (''app'' @ ''.config.ts'')
     (path_join failing_runtime (''node_modules/.'' @ ''app'') ''config.js'') (disk fresh_world)
     = Inl (BuildFailure [''Unexpected "}"''])
   \<and> disk (snd (loadConfig failing_runtime ''app'' fresh_world)) = disk fresh_world
   \<and> build_calls (trace (snd (loadConfig failing_runtime ''app'' fresh_world)))
       \<noteq> build_calls (trace fresh_world)
   \<and> fst (loadConfig failing_runtime ''app'' fresh_world)
       = Inl (BuildFailure [''Unexpected "}"''])\<close>
proof -
  have h: \<open>esbuild failing_runtime (''app'' @ ''.config.ts'')
     (path_join failing_runtime (''node_modules/.'' @ ''app'') ''config.js'') (disk fresh_world)
     = Inl (BuildFailure [''Unexpected "}"''])\<close>
    by (simp add: failing_runtime_def failing_build_def)
  have c: "build_calls (trace (snd (loadConfig failing_runtime ''app'' fresh_world)))
       \<noteq> build_calls (trace fresh_world)"
    by code_simp
  from h c loadConfig_build_failure [OF h] show ?thesis by simp
qed

text \<open>
  C4, as amended. A cache file whose text is not empty and cannot be parsed as JSON makes
  \<^verbatim>\<open>read\<close> raise the \<^verbatim>\<open>SyntaxError\<close> of \<^verbatim>\<open>JSON.parse\<close> (line 78 is not inside a
  \<^verbatim>\<open>try\<close>); only the empty file, which cannot be parsed either, is read as absent, by
  line 77.
\<close>

theorem jsonCache_read_unparsable:
  assumes "fs path = File bytes"
    and "JSON_parse rt (utf8_decode rt bytes) = None"
  shows "jsonCache_read rt path version fs
         = (if utf8_decode rt bytes = [] then Inr None else Inl SyntaxError)"
  using assms by (simp add: jsonCache_read_def readMaybeFileSync_def readFileSync_def)

theorem jsonCache_read_unparsable_witness:
  \<open>truncated_disk ''node_modules/.app/config-hashes.json''
     = File ''{"version":4,"files":[["app.co''
   \<and> JSON_parse app_runtime (utf8_decode app_runtime ''{"version":4,"files":[["app.co'') = None
   \<and> jsonCache_read app_runtime ''node_modules/.app/config-hashes.json'' (JNum 4) truncated_disk
       = Inl SyntaxError\<close>
proof -
  have d: \<open>truncated_disk ''node_modules/.app/config-hashes.json''
     = File ''{"version":4,"files":[["app.co''\<close>
    by (simp add: truncated_disk_def)
  have p: \<open>JSON_parse app_runtime (utf8_decode app_runtime ''{"version":4,"files":[["app.co'') = None\<close>
    by code_simp
  have n: \<open>utf8_decode app_runtime ''{"version":4,"files":[["app.co'' \<noteq> []\<close>
    by (simp add: app_runtime_def sample_runtime_def)
  from d p n
    jsonCache_read_unparsable [where fs = truncated_disk and rt = app_runtime
      and version = "JNum 4", OF d p]
  show ?thesis by simp
qed

text \<open>
  The claim as it stands, that \<^verbatim>\<open>read\<close> returns absent for every content that cannot be
  parsed, fails on a cache file holding a line of a merge conflict.
\<close>

theorem jsonCache_read_unparsable_counterexample:
  \<open>garbled_disk ''node_modules/.app/config-hashes.json'' = File ''<<<<<<< HEAD''
   \<and> JSON_parse app_runtime (utf8_decode app_runtime ''<<<<<<< HEAD'') = None
   \<and> jsonCache_read app_runtime ''node_modules/.app/config-hashes.json'' (JNum 4) garbled_disk
       = Inl SyntaxError
   \<and> jsonCache_read app_runtime ''node_modules/.app/config-hashes.json'' (JNum 4) garbled_disk
       \<noteq> Inr None\<close>
proof -
  have p: \<open>parse_json ''<<<<<<< HEAD'' = None\<close>
    by code_simp
  have d: \<open>garbled_disk ''node_modules/.app/config-hashes.json'' = File ''<<<<<<< HEAD''\<close>
    by (simp add: garbled_disk_def)
  from p d show ?thesis
    by (simp add: jsonCache_read_def readMaybeFileSync_def readFileSync_def
        app_runtime_def sample_runtime_def)
qed




text \<open>
  C7. When everything before the import has succeeded (the entry file exists, and the
  cache was valid or the entry was compiled) and the module imported has no export
  \<^verbatim>\<open>config\<close>, \<^verbatim>\<open>loadConfig\<close> raises an \<^verbatim>\<open>Error\<close> whose message names the entry file and
  the export that is missing.
\<close>

theorem loadConfig_missing_export:
  assumes "resolve_deps rt name w = (Inr (Some deps), w1)"
    and "dyn_import rt (path_join rt (cwd rt) (path_join rt (''node_modules/.'' @ name) ''config.js''))
           (clock w1) (disk w1) = Inr module"
    and "map_of module ''config'' = None"
  shows \<open>fst (loadConfig rt name w)
         = Inl (Error (name @ ''.config.ts doesn't have a "config" export''))\<close>
  using load_export_not_truthy [OF assms(2), of "name @ ''.config.ts''" deps] assms(3)
  by (simp add: loadConfig_after_resolve [OF assms(1)] missing_export_def)

theorem loadConfig_missing_export_witness:
  \<open>resolve_deps other_runtime ''app'' built_world
     = (Inr (Some [dep_record ''app.config.ts'' ''07e4003e'', dep_record ''ports.ts'' ''1d5f86d3'']),
        snd (resolve_deps other_runtime ''app'' built_world))
   \<and> dyn_import other_runtime
         (path_join other_runtime (cwd other_runtime)
            (path_join other_runtime (''node_modules/.'' @ ''app'') ''config.js''))
         (clock (snd (resolve_deps other_runtime ''app'' built_world)))
         (disk (snd (resolve_deps other_runtime ''app'' built_world)))
       = Inr other_exports
   \<and> map_of other_exports ''config'' = None
   \<and> fst (loadConfig other_runtime ''app'' built_world)
       = Inl (Error ''app.config.ts doesn't have a "config" export'')\<close>
proof -
  have "fst (resolve_deps other_runtime ''app'' built_world)
     = Inr (Some [dep_record ''app.config.ts'' ''07e4003e'', dep_record ''ports.ts'' ''1d5f86d3''])"
    by code_simp
  then have r: "resolve_deps other_runtime ''app'' built_world
     = (Inr (Some [dep_record ''app.config.ts'' ''07e4003e'', dep_record ''ports.ts'' ''1d5f86d3'']),
        snd (resolve_deps other_runtime ''app'' built_world))"
    by (metis prod.collapse)
  have i: "dyn_import other_runtime
         (path_join other_runtime (cwd other_runtime)
            (path_join other_runtime (''node_modules/.'' @ ''app'') ''config.js''))
         (clock (snd (resolve_deps other_runtime ''app'' built_world)))
         (disk (snd (resolve_deps other_runtime ''app'' built_world)))
       = Inr other_exports"
    by code_simp
  have m: "map_of other_exports ''config'' = None"
    by (simp add: other_exports_def)
  from r i m loadConfig_missing_export [OF r i m] show ?thesis by simp
qed

text \<open>
  C10. When the module exports a \<^verbatim>\<open>config\<close> that is falsy, the test \<^verbatim>\<open>!module.config\<close> of
  line 59 holds and \<^verbatim>\<open>loadConfig\<close> raises the very error of a missing export: the
  falsy value is not returned. In this model the falsy values are \<^verbatim>\<open>undefined\<close>, \<^verbatim>\<open>null\<close>,
  \<^verbatim>\<open>false\<close>, \<open>0\<close> and the empty string.
\<close>

theorem loadConfig_falsy_export:
  assumes "resolve_deps rt name w = (Inr (Some deps), w1)"
    and "dyn_import rt (path_join rt (cwd rt) (path_join rt (''node_modules/.'' @ name) ''config.js''))
           (clock w1) (disk w1) = Inr module"
    and "map_of module ''config'' = Some exported"
    and "\<not> truthy exported"
  shows \<open>fst (loadConfig rt name w)
           = Inl (Error (name @ ''.config.ts doesn't have a "config" export''))
         \<and> exported \<in> {VUndefined, VNull, VBool False, VNum 0, VStr []}\<close>
proof -
  from assms(4) have "exported \<in> {VUndefined, VNull, VBool False, VNum 0, VStr []}"
    by (cases exported) auto
  with load_export_not_truthy [OF assms(2), of "name @ ''.config.ts''" deps] assms(3,4)
  show ?thesis
    by (simp add: loadConfig_after_resolve [OF assms(1)] missing_export_def)
qed

theorem loadConfig_falsy_export_witness:
  \<open>resolve_deps falsy_runtime ''app'' built_world
     = (Inr (Some [dep_record ''app.config.ts'' ''07e4003e'', dep_record ''ports.ts'' ''1d5f86d3'']),
        snd (resolve_deps falsy_runtime ''app'' built_world))
   \<and> dyn_import falsy_runtime
         (path_join falsy_runtime (cwd falsy_runtime)
            (path_join falsy_runtime (''node_modules/.'' @ ''app'') ''config.js''))
         (clock (snd (resolve_deps falsy_runtime ''app'' built_world)))
         (disk (snd (resolve_deps falsy_runtime ''app'' built_world)))
       = Inr falsy_exports
   \<and> map_of falsy_exports ''config'' = Some (VNum 0)
   \<and> \<not> truthy (VNum 0)
   \<and> fst (loadConfig falsy_runtime ''app'' built_world)
       = Inl (Error ''app.config.ts doesn't have a "config" export'')\<close>
proof -
  have "fst (resolve_deps falsy_runtime ''app'' built_world)
     = Inr (Some [dep_record ''app.config.ts'' ''07e4003e'', dep_record ''ports.ts'' ''1d5f86d3''])"
    by code_simp
  then have r: "resolve_deps falsy_runtime ''app'' built_world
     = (Inr (Some [dep_record ''app.config.ts'' ''07e4003e'', dep_record ''ports.ts'' ''1d5f86d3'']),
        snd (resolve_deps falsy_runtime ''app'' built_world))"
    by (metis prod.collapse)
  have i: "dyn_import falsy_runtime
         (path_join falsy_runtime (cwd falsy_runtime)
            (path_join falsy_runtime (''node_modules/.'' @ ''app'') ''config.js''))
         (clock (snd (resolve_deps falsy_runtime ''app'' built_world)))
         (disk (snd (resolve_deps falsy_runtime ''app'' built_world)))
       = Inr falsy_exports"
    by code_simp
  have m: "map_of falsy_exports ''config'' = Some (VNum 0)"
    by (simp add: falsy_exports_def)
  have f: "\<not> truthy (VNum 0)" by simp
  from r i m f loadConfig_falsy_export [OF r i m f] show ?thesis by simp
qed

text \<open>
  C6. When the export \<^verbatim>\<open>config\<close> is a function, \<^verbatim>\<open>loadConfig\<close> calls it and awaits what
  it returns: the field \<^verbatim>\<open>config\<close> of the result is the value the promise resolved to,
  which is not the function and is not a promise. When the export is a plain value, one
  that is not a function and has passed the test of line 59 (a configuration object
  always does), that value is the field \<^verbatim>\<open>config\<close>. In both cases \<^verbatim>\<open>files\<close> is the
  list of the paths of the dependency records.
\<close>

theorem loadConfig_deferred_config:
  assumes "resolve_deps rt name w = (Inr (Some deps), w1)"
    and "dyn_import rt (path_join rt (cwd rt) (path_join rt (''node_modules/.'' @ name) ''config.js''))
           (clock w1) (disk w1) = Inr module"
    and "map_of module ''config'' = Some exported"
  shows "(call exported = Inr r \<and> await r = Inr c \<longrightarrow>
            (\<exists>ps. paths_of deps = Inr ps
                \<and> fst (loadConfig rt name w) = Inr (Some \<lparr>config = c, files = ps\<rparr>))
            \<and> c \<noteq> exported \<and> \<not> is_promise c)
         \<and> (\<not> is_function exported \<and> truthy exported \<longrightarrow>
            (\<exists>ps. paths_of deps = Inr ps
                \<and> fst (loadConfig rt name w) = Inr (Some \<lparr>config = exported, files = ps\<rparr>)))"
proof -
  from resolve_deps_paths [OF assms(1)] obtain ps where ps: "paths_of deps = Inr ps" ..
  have "fst (loadConfig rt name w) = Inr (Some \<lparr>config = c, files = ps\<rparr>)
        \<and> c \<noteq> exported \<and> \<not> is_promise c"
    if "call exported = Inr r" and "await r = Inr c"
    using that load_export_function [OF assms(2,3) that ps]
      call_await_smaller [OF that] await_not_promise [OF that(2)]
    by (simp add: loadConfig_after_resolve [OF assms(1)])
  moreover have "fst (loadConfig rt name w) = Inr (Some \<lparr>config = exported, files = ps\<rparr>)"
    if "\<not> is_function exported" and "truthy exported"
    using load_export_plain [OF assms(2,3) that ps]
    by (simp add: loadConfig_after_resolve [OF assms(1)])
  ultimately show ?thesis using ps by blast
qed

theorem loadConfig_deferred_config_witness:
  \<open>resolve_deps deferred_runtime ''app'' built_world
     = (Inr (Some [dep_record ''app.config.ts'' ''07e4003e'', dep_record ''ports.ts'' ''1d5f86d3'']),
        snd (resolve_deps deferred_runtime ''app'' built_world))
   \<and> dyn_import deferred_runtime
         (path_join deferred_runtime (cwd deferred_runtime)
            (path_join deferred_runtime (''node_modules/.'' @ ''app'') ''config.js''))
         (clock (snd (resolve_deps deferred_runtime ''app'' built_world)))
         (disk (snd (resolve_deps deferred_runtime ''app'' built_world)))
       = Inr deferred_exports
   \<and> map_of deferred_exports ''config''
       = Some (VFunction (Inr (VPromise (Inr (VObject [(''port'', VNum 3000)])))))
   \<and> call (VFunction (Inr (VPromise (Inr (VObject [(''port'', VNum 3000)])))))
       = Inr (VPromise (Inr (VObject [(''port'', VNum 3000)])))
   \<and> await (VPromise (Inr (VObject [(''port'', VNum 3000)])))
       = Inr (VObject [(''port'', VNum 3000)])
   \<and> fst (loadConfig deferred_runtime ''app'' built_world)
       = Inr (Some \<lparr>config = VObject [(''port'', VNum 3000)],
                     files = [''app.config.ts'', ''ports.ts'']\<rparr>)\<close>
proof -
  have "fst (resolve_deps deferred_runtime ''app'' built_world)
     = Inr (Some [dep_record ''app.config.ts'' ''07e4003e'', dep_record ''ports.ts'' ''1d5f86d3''])"
    by code_simp
  then have r: "resolve_deps deferred_runtime ''app'' built_world
     = (Inr (Some [dep_record ''app.config.ts'' ''07e4003e'', dep_record ''ports.ts'' ''1d5f86d3'']),
        snd (resolve_deps deferred_runtime ''app'' built_world))"
    by (metis prod.collapse)
  have i: "dyn_import deferred_runtime
         (path_join deferred_runtime (cwd deferred_runtime)
            (path_join deferred_runtime (''node_modules/.'' @ ''app'') ''config.js''))
         (clock (snd (resolve_deps deferred_runtime ''app'' built_world)))
         (disk (snd (resolve_deps deferred_runtime ''app'' built_world)))
       = Inr deferred_exports"
    by code_simp
  have m: "map_of deferred_exports ''config''
       = Some (VFunction (Inr (VPromise (Inr (VObject [(''port'', VNum 3000)])))))"
    by (simp add: deferred_exports_def)
  have p: "paths_of [dep_record ''app.config.ts'' ''07e4003e'', dep_record ''ports.ts'' ''1d5f86d3'']
     = Inr [''app.config.ts'', ''ports.ts'']"
    by (simp add: dep_record_def)
  from r i m p
    loadConfig_deferred_config [OF r i m,
      of "VPromise (Inr (VObject [(''port'', VNum 3000)]))" "VObject [(''port'', VNum 3000)]"]
  show ?thesis by simp
qed

text \<open>
  C5, as amended. When the entry file exists, the cache record is read, each of its
  pairs names a file that can be read or is missing, and one of these files has been
  deleted, then the validation of lines 20-26 does not raise (the missing file is read
  as \<^verbatim>\<open>undefined\<close>) and the call compiles the entry, once.
\<close>

theorem loadConfig_deleted_dependency:
  assumes "existsSync (disk w) (name @ ''.config.ts'')"
    and "jsonCache_read rt (path_join rt (''node_modules/.'' @ name) ''config-hashes.json'')
           (JNum 4) (disk w) = Inr (Some json)"
    and "get_prop json ''files'' = Inr (Some (JArr es))"
    and "list_all (can_read (disk w)) es"
    and "list_ex (is_deleted (disk w)) es"
  shows "validate rt (disk w) (Some (JArr es)) = Inr None
         \<and> build_calls (trace (snd (loadConfig rt name w))) = Suc (build_calls (trace w))"
proof -
  from assms(4,5) have "some_changed rt (disk w) es = Inr True"
    by (rule some_changed_deleted)
  then have v: "validate rt (disk w) (Some (JArr es)) = Inr None"
    by (simp add: validate_def)
  from assms(3) have c: "cached_files (Some json) = Inr (Some (JArr es))"
    by (simp add: cached_files_def)
  from resolve_deps_rebuilds [OF assms(1,2) c v] v show ?thesis
    by (simp add: loadConfig_build_calls)
qed

theorem loadConfig_deleted_dependency_witness:
  \<open>existsSync (disk ports_deleted_world) (''app'' @ ''.config.ts'')
   \<and> jsonCache_read app_runtime (path_join app_runtime (''node_modules/.'' @ ''app'') ''config-hashes.json'')
         (JNum 4) (disk ports_deleted_world)
       = Inr (Some (JObj [(''files'', JArr [dep_record ''app.config.ts'' ''07e4003e'',
                                            dep_record ''ports.ts'' ''1d5f86d3''])]))
   \<and> list_all (can_read (disk ports_deleted_world))
         [dep_record ''app.config.ts'' ''07e4003e'', dep_record ''ports.ts'' ''1d5f86d3'']
   \<and> list_ex (is_deleted (disk ports_deleted_world))
         [dep_record ''app.config.ts'' ''07e4003e'', dep_record ''ports.ts'' ''1d5f86d3'']
   \<and> build_calls (trace (snd (loadConfig app_runtime ''app'' ports_deleted_world)))
       = Suc (build_calls (trace ports_deleted_world))\<close>
proof -
  have e: "existsSync (disk ports_deleted_world) (''app'' @ ''.config.ts'')"
    by code_simp
  have r: "jsonCache_read app_runtime (path_join app_runtime (''node_modules/.'' @ ''app'') ''config-hashes.json'')
         (JNum 4) (disk ports_deleted_world)
       = Inr (Some (JObj [(''files'', JArr [dep_record ''app.config.ts'' ''07e4003e'',
                                            dep_record ''ports.ts'' ''1d5f86d3''])]))"
    by code_simp
  have g: "get_prop (JObj [(''files'', JArr [dep_record ''app.config.ts'' ''07e4003e'',
                                            dep_record ''ports.ts'' ''1d5f86d3''])]) ''files''
       = Inr (Some (JArr [dep_record ''app.config.ts'' ''07e4003e'',
                          dep_record ''ports.ts'' ''1d5f86d3'']))"
    by simp
  have a: "list_all (can_read (disk ports_deleted_world))
         [dep_record ''app.config.ts'' ''07e4003e'', dep_record ''ports.ts'' ''1d5f86d3'']"
    by code_simp
  have d: "list_ex (is_deleted (disk ports_deleted_world))
         [dep_record ''app.config.ts'' ''07e4003e'', dep_record ''ports.ts'' ''1d5f86d3'']"
    by code_simp
  from e r a d loadConfig_deleted_dependency [OF e r g a d] show ?thesis by simp
qed

text \<open>
  The claim as it stands speaks of any file of the dependency set. The entry file is
  one of them, and when it is the one deleted the call returns \<^verbatim>\<open>undefined\<close> at line 14:
  nothing is compiled.
\<close>

theorem loadConfig_deleted_entry_counterexample:
  \<open>jsonCache_read app_runtime ''node_modules/.app/config-hashes.json'' (JNum 4)
       (disk entry_deleted_world)
     = Inr (Some (JObj [(''files'', JArr [dep_record ''app.config.ts'' ''07e4003e'',
                                          dep_record ''ports.ts'' ''1d5f86d3''])]))
   \<and> is_deleted (disk entry_deleted_world) (dep_record ''app.config.ts'' ''07e4003e'')
   \<and> fst (loadConfig app_runtime ''app'' entry_deleted_world) = Inr None
   \<and> trace (snd (loadConfig app_runtime ''app'' entry_deleted_world)) = []\<close>
proof -
  have 1: \<open>jsonCache_read app_runtime ''node_modules/.app/config-hashes.json'' (JNum 4)
       (disk entry_deleted_world)
     = Inr (Some (JObj [(''files'', JArr [dep_record ''app.config.ts'' ''07e4003e'',
                                          dep_record ''ports.ts'' ''1d5f86d3''])]))\<close>
    by code_simp
  have 2: "is_deleted (disk entry_deleted_world) (dep_record ''app.config.ts'' ''07e4003e'')"
    by code_simp
  have 3: "fst (loadConfig app_runtime ''app'' entry_deleted_world) = Inr None"
    by code_simp
  have 4: "trace (snd (loadConfig app_runtime ''app'' entry_deleted_world)) = []"
    by code_simp
  from 1 2 3 4 show ?thesis by simp
qed

text \<open>
  C1, on the input where the code departs from it. The cache record of \<^verbatim>\<open>docs\<close> exists,
  its version is \<open>4\<close>, and each of its two pairs names a file that exists and whose
  fresh fingerprint is the stored one; the second file, \<^verbatim>\<open>empty.ts\<close>, has no bytes. The
  call compiles all the same: \<^verbatim>\<open>!content\<close> at line 24 holds of the empty text as it
  does of a missing file.
\<close>

theorem loadConfig_empty_dependency_rebuilds:
  \<open>existsSync (disk built_world) ''docs.config.ts''
   \<and> jsonCache_read docs_runtime ''node_modules/.docs/config-hashes.json'' (JNum 4)
         (disk built_world)
       = Inr (Some (JObj [(''files'', JArr [dep_record ''docs.config.ts'' ''1d7fb0e8'',
                                            dep_record ''empty.ts'' ''00001505''])]))
   \<and> readMaybeFileSync docs_runtime (disk built_world) ''docs.config.ts''
       = Inr (Some ''import "./empty"; export const config = { title: "Docs" }'')
   \<and> getHash docs_runtime (Text ''import "./empty"; export const config = { title: "Docs" }'')
       = ''1d7fb0e8''
   \<and> readMaybeFileSync docs_runtime (disk built_world) ''empty.ts'' = Inr (Some [])
   \<and> getHash docs_runtime (Text []) = ''00001505''
   \<and> trace (snd (loadConfig docs_runtime ''docs'' built_world))
       = [Build ''docs.config.ts'' ''node_modules/.docs/config.js'',
          Import ''node_modules/.docs/config.js'' 1]\<close>
proof -
  have 1: "existsSync (disk built_world) ''docs.config.ts''"
    by code_simp
  have 2: \<open>jsonCache_read docs_runtime ''node_modules/.docs/config-hashes.json'' (JNum 4)
         (disk built_world)
       = Inr (Some (JObj [(''files'', JArr [dep_record ''docs.config.ts'' ''1d7fb0e8'',
                                            dep_record ''empty.ts'' ''00001505''])]))\<close>
    by code_simp
  have 3: \<open>readMaybeFileSync docs_runtime (disk built_world) ''docs.config.ts''
       = Inr (Some ''import "./empty"; export const config = { title: "Docs" }'')\<close>
    by code_simp
  have 4: \<open>getHash docs_runtime (Text ''import "./empty"; export const config = { title: "Docs" }'')
       = ''1d7fb0e8''\<close>
    by code_simp
  have 5: "readMaybeFileSync docs_runtime (disk built_world) ''empty.ts'' = Inr (Some [])"
    by code_simp
  have 6: "getHash docs_runtime (Text []) = ''00001505''"
    by code_simp
  have 7: "trace (snd (loadConfig docs_runtime ''docs'' built_world))
       = [Build ''docs.config.ts'' ''node_modules/.docs/config.js'',
          Import ''node_modules/.docs/config.js'' 1]"
    by code_simp
  from 1 2 3 4 5 6 7 show ?thesis by simp
qed

text \<open>
  C2, on the same project. The first call for \<^verbatim>\<open>docs\<close> compiles and returns the two
  files; neither file changes; the second call returns the same result, and compiles
  again.
\<close>

theorem loadConfig_second_call_rebuilds:
  \<open>fst first_call
     = Inr (Some \<lparr>config = VObject [(''title'', VStr ''Docs'')],
                   files = [''docs.config.ts'', ''empty.ts'']\<rparr>)
   \<and> disk (snd first_call) ''docs.config.ts'' = disk fresh_world ''docs.config.ts''
   \<and> disk (snd first_call) ''empty.ts'' = disk fresh_world ''empty.ts''
   \<and> trace (snd first_call)
       = [Build ''docs.config.ts'' ''node_modules/.docs/config.js'',
          Import ''node_modules/.docs/config.js'' 0]
   \<and> fst second_call = fst first_call
   \<and> trace (snd second_call)
       = trace (snd first_call)
         @ [Build ''docs.config.ts'' ''node_modules/.docs/config.js'',
            Import ''node_modules/.docs/config.js'' 0]\<close>
proof -
  have 1: \<open>fst first_call
     = Inr (Some \<lparr>config = VObject [(''title'', VStr ''Docs'')],
                   files = [''docs.config.ts'', ''empty.ts'']\<rparr>)\<close>
    by code_simp
  have 2: "disk (snd first_call) ''docs.config.ts'' = disk fresh_world ''docs.config.ts''"
    by code_simp
  have 3: "disk (snd first_call) ''empty.ts'' = disk fresh_world ''empty.ts''"
    by code_simp
  have 4: "trace (snd first_call)
       = [Build ''docs.config.ts'' ''node_modules/.docs/config.js'',
          Import ''node_modules/.docs/config.js'' 0]"
    by code_simp
  have 5: "fst second_call = fst first_call"
    by code_simp
  have 6: "trace (snd second_call)
       = trace (snd first_call)
         @ [Build ''docs.config.ts'' ''node_modules/.docs/config.js'',
            Import ''node_modules/.docs/config.js'' 0]"
    by code_simp
  from 1 2 3 4 5 6 show ?thesis by simp
qed

end
